theory Spec2Isabelle
  imports Main "HOL-Library.Word"
begin

unbundle bit_operations_syntax

section \<open>PD_AI wire format: data model\<close>

text \<open>
  The header \<^verbatim>\<open>PD_AI_wire.h\<close> declares three packed structures and a set of
  function-like macros. A structure is a record of machine words. A macro has
  no parameter types: its arguments are integer expressions, taken here at
  their mathematical value (\<open>int\<close>); the conversion that C applies when such a
  value initialises a \<open>uint8_t\<close> or \<open>uint32_t\<close> member is written out as
  \<open>word_of_int\<close>, which reduces modulo \<open>2 ^ 8\<close> or \<open>2 ^ 32\<close>. The two size
  macros compute with their argument, so there the argument carries its type.
\<close>

type_synonym uint8_t = "8 word"
type_synonym uint32_t = "32 word"

text \<open>\<^verbatim>\<open>wh16_t\<close>: mt(1) + kc(1) + ann(1) + ver(1) + cap(4) + rid(4) + n(4).\<close>

record wh16_t =
  mt :: uint8_t
  kc :: uint8_t
  ann :: uint8_t
  ver :: uint8_t
  cap :: uint32_t
  rid :: uint32_t
  n :: uint32_t

text \<open>\<^verbatim>\<open>kv32_t\<close>: a key and a value, 4 bytes each.\<close>

record kv32_t =
  k :: uint32_t
  v :: uint32_t

text \<open>\<^verbatim>\<open>bud_t\<close>: mode, capacity and consumption, 4 bytes each.\<close>

record bud_t =
  mode :: uint32_t
  cap_credits :: uint32_t
  used_credits :: uint32_t

subsection \<open>Message types\<close>

definition M_PING :: int where "M_PING = 0x00"
definition M_PONG :: int where "M_PONG = 0x01"
definition M_UPSERT :: int where "M_UPSERT = 0x02"
definition M_QUERY :: int where "M_QUERY = 0x03"
definition M_DELETE :: int where "M_DELETE = 0x04"
definition M_SNAPSHOT :: int where "M_SNAPSHOT = 0x05"
definition M_RESTORE :: int where "M_RESTORE = 0x06"
definition M_SYNC :: int where "M_SYNC = 0x07"

subsection \<open>Key classes\<close>

definition K_MCP :: int where "K_MCP = 0x10"
definition K_AUTH :: int where "K_AUTH = 0x20"
definition K_CONFIG :: int where "K_CONFIG = 0x30"
definition K_STATE :: int where "K_STATE = 0x40"
definition K_SNAPSHOT :: int where "K_SNAPSHOT = 0x50"
definition K_METADATA :: int where "K_METADATA = 0x60"

subsection \<open>Annotation bits\<close>

definition T_R :: int where "T_R = 0x01"
definition T_W :: int where "T_W = 0x02"
definition T_D :: int where "T_D = 0x04"
definition T_X :: int where "T_X = 0x08"
definition T_SYNC :: int where "T_SYNC = 0x10"
definition T_COMPRESS :: int where "T_COMPRESS = 0x20"
definition T_ENCRYPT :: int where "T_ENCRYPT = 0x40"
definition T_ARCHIVE :: int where "T_ARCHIVE = 0x80"

definition ANN_MCP :: int where "ANN_MCP = T_R OR T_W OR T_D"
definition ANN_RO :: int where "ANN_RO = T_R"
definition ANN_RW :: int where "ANN_RW = T_R OR T_W"
definition ANN_FULL :: int where "ANN_FULL = T_R OR T_W OR T_D OR T_X"

subsection \<open>Capability flags\<close>

definition P_TOOLS :: int where "P_TOOLS = 0x10000000"
definition P_APPS :: int where "P_APPS = 0x20000000"
definition P_FILES :: int where "P_FILES = 0x40000000"
definition P_NETWORK :: int where "P_NETWORK = 0x80000000"
definition P_DATABASE :: int where "P_DATABASE = 0x01000000"
definition P_COMPUTE :: int where "P_COMPUTE = 0x02000000"
definition P_MEMORY :: int where "P_MEMORY = 0x04000000"
definition P_ADMIN :: int where "P_ADMIN = 0x08000000"

definition CAP_STANDARD :: int where "CAP_STANDARD = P_TOOLS OR P_APPS"
definition CAP_EXTENDED :: int where "CAP_EXTENDED = P_TOOLS OR P_APPS OR P_FILES"
definition CAP_FULL :: int where "CAP_FULL = 0xFFFFFFFF"

subsection \<open>Record id ranges\<close>

definition RID_SYSTEM_MIN :: int where "RID_SYSTEM_MIN = 0x00000001"
definition RID_SYSTEM_MAX :: int where "RID_SYSTEM_MAX = 0x000FFFFF"
definition RID_USER_MIN :: int where "RID_USER_MIN = 0x00100000"
definition RID_USER_MAX :: int where "RID_USER_MAX = 0x0FFFFFFF"
definition RID_SNAPSHOT_MIN :: int where "RID_SNAPSHOT_MIN = 0x10000000"
definition RID_SNAPSHOT_MAX :: int where "RID_SNAPSHOT_MAX = 0x1FFFFFFF"
definition RID_TEMP_MIN :: int where "RID_TEMP_MIN = 0x20000000"
definition RID_TEMP_MAX :: int where "RID_TEMP_MAX = 0x2FFFFFFF"

section \<open>Convenience macros\<close>

text \<open>
  \<^verbatim>\<open>WH(mt, kc, ann, cap, rid, n)\<close> is the compound literal
  \<^verbatim>\<open>((wh16_t){mt, kc, ann, 1, cap, rid, n})\<close>: each argument is converted to the
  type of its member, and the version member is the constant 1.
\<close>

definition WH :: "int \<Rightarrow> int \<Rightarrow> int \<Rightarrow> int \<Rightarrow> int \<Rightarrow> int \<Rightarrow> wh16_t" where
  "WH a_mt a_kc a_ann a_cap a_rid a_n =
     \<lparr>mt = word_of_int a_mt, kc = word_of_int a_kc, ann = word_of_int a_ann, ver = 1,
      cap = word_of_int a_cap, rid = word_of_int a_rid, n = word_of_int a_n\<rparr>"

definition KV :: "int \<Rightarrow> int \<Rightarrow> kv32_t" where
  "KV a_k a_v = \<lparr>k = word_of_int a_k, v = word_of_int a_v\<rparr>"

definition BUD :: "int \<Rightarrow> int \<Rightarrow> int \<Rightarrow> bud_t" where
  "BUD a_mode a_cap a_used =
     \<lparr>mode = word_of_int a_mode, cap_credits = word_of_int a_cap,
      used_credits = word_of_int a_used\<rparr>"

text \<open>
  \<^verbatim>\<open>sizeof\<close> of a packed structure is the sum of the sizes of its members.
\<close>

definition sizeof_wh16_t :: nat where
  "sizeof_wh16_t = 1 + 1 + 1 + 1 + 4 + 4 + 4"

definition sizeof_kv32_t :: nat where
  "sizeof_kv32_t = 4 + 4"

definition sizeof_bud_t :: nat where
  "sizeof_bud_t = 4 + 4 + 4"

text \<open>
  \<^verbatim>\<open>BYTES_KV(n)\<close> is \<^verbatim>\<open>((n) * sizeof(kv32_t))\<close> and \<^verbatim>\<open>MSG_SIZE(p)\<close> is
  \<^verbatim>\<open>(sizeof(wh16_t) + (p))\<close>. The result of \<^verbatim>\<open>sizeof\<close> has type \<^verbatim>\<open>size_t\<close>, and the
  type in which the product or sum is computed depends on the type of the argument as
  well, by the usual arithmetic conversions. So for these two macros an argument is a
  value together with its integer type, given by signedness and width in bits, and the
  width of \<^verbatim>\<open>size_t\<close> on the target is a parameter.
\<close>

datatype c_int_type = Signed_t nat | Unsigned_t nat

type_synonym c_int = "c_int_type \<times> int"

text \<open>The values of an integer type.\<close>

fun representable_in :: "c_int_type \<Rightarrow> int \<Rightarrow> bool" where
  "representable_in (Unsigned_t w) x \<longleftrightarrow> 0 \<le> x \<and> x < 2 ^ w"
| "representable_in (Signed_t w) x \<longleftrightarrow> - (2 ^ (w - 1)) \<le> x \<and> x < 2 ^ (w - 1)"

text \<open>
  The usual arithmetic conversions between an operand of the given type and an operand
  of type \<^verbatim>\<open>size_t\<close>, which is unsigned and \<open>size_bits\<close> wide. An unsigned operand gives
  the wider of the two unsigned types. A signed operand that is not wider than
  \<^verbatim>\<open>size_t\<close> is converted to an unsigned type of the width of \<^verbatim>\<open>size_t\<close>; a wider one can
  hold every value of \<^verbatim>\<open>size_t\<close>, and the computation is done in that signed type.
  \<^verbatim>\<open>size_t\<close> is taken to be at least as wide as \<^verbatim>\<open>int\<close>, so that promoting a narrow
  argument to \<^verbatim>\<open>int\<close> first makes no difference.
\<close>

fun usual_arith_conv :: "nat \<Rightarrow> c_int_type \<Rightarrow> c_int_type" where
  "usual_arith_conv size_bits (Unsigned_t w) = Unsigned_t (max w size_bits)"
| "usual_arith_conv size_bits (Signed_t w) =
     (if w \<le> size_bits then Unsigned_t size_bits else Signed_t w)"

text \<open>
  Conversion of an operand to the type of the computation: modulo \<open>2 ^ w\<close> into an
  unsigned type; into the wider signed type the value is kept, both operands being
  representable there.
\<close>

fun convert_to :: "c_int_type \<Rightarrow> int \<Rightarrow> int" where
  "convert_to (Unsigned_t w) x = x mod 2 ^ w"
| "convert_to (Signed_t w) x = x"

text \<open>
  The result of an arithmetic operation whose mathematical value is \<open>r\<close>: an unsigned
  type wraps around, and in a signed type a value out of range is an overflow, which C
  leaves undefined.
\<close>

datatype c_error = Signed_overflow

fun arith_in :: "c_int_type \<Rightarrow> int \<Rightarrow> c_error + c_int" where
  "arith_in (Unsigned_t w) r = Inr (Unsigned_t w, r mod 2 ^ w)"
| "arith_in (Signed_t w) r =
     (if representable_in (Signed_t w) r then Inr (Signed_t w, r) else Inl Signed_overflow)"

definition BYTES_KV :: "nat \<Rightarrow> c_int \<Rightarrow> c_error + c_int" where
  "BYTES_KV size_bits cnt =
     (let t = usual_arith_conv size_bits (fst cnt)
      in arith_in t (convert_to t (snd cnt) * convert_to t (int sizeof_kv32_t)))"

definition MSG_SIZE :: "nat \<Rightarrow> c_int \<Rightarrow> c_error + c_int" where
  "MSG_SIZE size_bits payload_bytes =
     (let t = usual_arith_conv size_bits (fst payload_bytes)
      in arith_in t (convert_to t (int sizeof_wh16_t) + convert_to t (snd payload_bytes)))"

section \<open>Validation macros\<close>

definition RID_IS_VALID :: "int \<Rightarrow> bool" where
  "RID_IS_VALID r \<longleftrightarrow> r \<ge> RID_SYSTEM_MIN \<and> r \<le> RID_TEMP_MAX"

definition RID_IS_SYSTEM :: "int \<Rightarrow> bool" where
  "RID_IS_SYSTEM r \<longleftrightarrow> r \<ge> RID_SYSTEM_MIN \<and> r \<le> RID_SYSTEM_MAX"

definition RID_IS_USER :: "int \<Rightarrow> bool" where
  "RID_IS_USER r \<longleftrightarrow> r \<ge> RID_USER_MIN \<and> r \<le> RID_USER_MAX"

definition HAS_READ :: "int \<Rightarrow> bool" where
  "HAS_READ a \<longleftrightarrow> (a AND T_R) \<noteq> 0"

definition HAS_WRITE :: "int \<Rightarrow> bool" where
  "HAS_WRITE a \<longleftrightarrow> (a AND T_W) \<noteq> 0"

definition HAS_DELETE :: "int \<Rightarrow> bool" where
  "HAS_DELETE a \<longleftrightarrow> (a AND T_D) \<noteq> 0"

section \<open>Budget arithmetic\<close>

text \<open>
  \<^verbatim>\<open>test_bud\<close> computes \<^verbatim>\<open>uint32_t remaining = budget.cap_credits - budget.used_credits\<close>:
  a subtraction of two \<^verbatim>\<open>uint32_t\<close> values, stored in a \<^verbatim>\<open>uint32_t\<close>.
\<close>

definition remaining :: "bud_t \<Rightarrow> uint32_t" where
  "remaining budget = cap_credits budget - used_credits budget"

section \<open>Bytes of the packed structures\<close>

text \<open>
  \<^verbatim>\<open>test_full_message\<close> copies the structures into a byte buffer with \<^verbatim>\<open>memcpy\<close> and
  reads them back through pointer casts. The bytes of a \<^verbatim>\<open>uint32_t\<close> member are in
  the byte order of the target, which the header does not fix: it is a parameter.
\<close>

datatype endian = LittleEndian | BigEndian

definition u32_bytes :: "endian \<Rightarrow> uint32_t \<Rightarrow> uint8_t list" where
  "u32_bytes e w =
     (case e of
        LittleEndian \<Rightarrow> [ucast w, ucast (drop_bit 8 w), ucast (drop_bit 16 w), ucast (drop_bit 24 w)]
      | BigEndian \<Rightarrow> [ucast (drop_bit 24 w), ucast (drop_bit 16 w), ucast (drop_bit 8 w), ucast w])"

definition u32_of :: "uint8_t \<Rightarrow> uint8_t \<Rightarrow> uint8_t \<Rightarrow> uint8_t \<Rightarrow> uint32_t" where
  "u32_of b0 b1 b2 b3 =
     ucast b0 OR push_bit 8 (ucast b1) OR push_bit 16 (ucast b2) OR push_bit 24 (ucast b3)"

text \<open>The \<^verbatim>\<open>uint32_t\<close> stored at byte offset \<open>off\<close> of a buffer.\<close>

definition load_u32 :: "endian \<Rightarrow> uint8_t list \<Rightarrow> nat \<Rightarrow> uint32_t" where
  "load_u32 e buf off =
     (case e of
        LittleEndian \<Rightarrow> u32_of (buf ! off) (buf ! (off + 1)) (buf ! (off + 2)) (buf ! (off + 3))
      | BigEndian \<Rightarrow> u32_of (buf ! (off + 3)) (buf ! (off + 2)) (buf ! (off + 1)) (buf ! off))"

text \<open>The object representation of each structure: its members in order, no padding.\<close>

definition wh16_bytes :: "endian \<Rightarrow> wh16_t \<Rightarrow> uint8_t list" where
  "wh16_bytes e h =
     [mt h, kc h, ann h, ver h] @ u32_bytes e (cap h) @ u32_bytes e (rid h) @ u32_bytes e (n h)"

definition kv32_bytes :: "endian \<Rightarrow> kv32_t \<Rightarrow> uint8_t list" where
  "kv32_bytes e p = u32_bytes e (k p) @ u32_bytes e (v p)"

definition bud_bytes :: "endian \<Rightarrow> bud_t \<Rightarrow> uint8_t list" where
  "bud_bytes e b =
     u32_bytes e (mode b) @ u32_bytes e (cap_credits b) @ u32_bytes e (used_credits b)"

text \<open>
  \<^verbatim>\<open>memcpy(dst + off, src, cnt)\<close> on buffers as lists. Both ranges must lie inside
  their buffers; C leaves anything else undefined, here it is \<open>None\<close>.
\<close>

definition memcpy :: "uint8_t list \<Rightarrow> nat \<Rightarrow> uint8_t list \<Rightarrow> nat \<Rightarrow> uint8_t list option" where
  "memcpy dst off src cnt =
     (if off + cnt \<le> length dst \<and> cnt \<le> length src
      then Some (take off dst @ take cnt src @ drop (off + cnt) dst)
      else None)"

text \<open>
  Reading through \<^verbatim>\<open>(wh16_t *)msg\<close>: the members at their byte offsets 0, 1, 2, 3, 4,
  8 and 12. A buffer shorter than the structure gives \<open>None\<close>.
\<close>

definition read_wh16 :: "endian \<Rightarrow> uint8_t list \<Rightarrow> wh16_t option" where
  "read_wh16 e msg =
     (if length msg < sizeof_wh16_t then None
      else Some \<lparr>mt = msg ! 0, kc = msg ! 1, ann = msg ! 2, ver = msg ! 3,
                 cap = load_u32 e msg 4, rid = load_u32 e msg 8, n = load_u32 e msg 12\<rparr>)"

text \<open>
  Reading \<^verbatim>\<open>read_kvs[i]\<close> where \<^verbatim>\<open>read_kvs = (kv32_t *)(msg + sizeof(wh16_t))\<close>: the
  pair at byte offset \<open>sizeof(wh16_t) + i * sizeof(kv32_t)\<close>.
\<close>

definition read_kvs :: "endian \<Rightarrow> uint8_t list \<Rightarrow> nat \<Rightarrow> kv32_t option" where
  "read_kvs e msg i =
     (let off = sizeof_wh16_t + i * sizeof_kv32_t
      in if length msg < off + sizeof_kv32_t then None
         else Some \<lparr>k = load_u32 e msg off, v = load_u32 e msg (off + 4)\<rparr>)"

text \<open>
  The assembly of \<^verbatim>\<open>test_full_message\<close>: the header is copied to offset 0 of the
  allocated buffer, then \<^verbatim>\<open>payload_size\<close> bytes of the pair array to offset
  \<^verbatim>\<open>sizeof(wh16_t)\<close>. The payload size is the one stored in the header.
\<close>

definition assemble_message :: "endian \<Rightarrow> uint8_t list \<Rightarrow> wh16_t \<Rightarrow> kv32_t list \<Rightarrow> uint8_t list option" where
  "assemble_message e msg header kvs =
     (case memcpy msg 0 (wh16_bytes e header) sizeof_wh16_t of
        None \<Rightarrow> None
      | Some msg1 \<Rightarrow> memcpy msg1 sizeof_wh16_t (concat (map (kv32_bytes e) kvs)) (unat (n header)))"


section \<open>Collections of defining equations\<close>

lemmas ann_defs = T_R_def T_W_def T_D_def T_X_def T_SYNC_def T_COMPRESS_def T_ENCRYPT_def
  T_ARCHIVE_def ANN_MCP_def ANN_RO_def ANN_RW_def ANN_FULL_def

lemmas cap_defs = P_TOOLS_def P_APPS_def P_FILES_def P_NETWORK_def P_DATABASE_def P_COMPUTE_def
  P_MEMORY_def P_ADMIN_def CAP_STANDARD_def CAP_EXTENDED_def CAP_FULL_def

lemmas rid_defs = RID_SYSTEM_MIN_def RID_SYSTEM_MAX_def RID_USER_MIN_def RID_USER_MAX_def
  RID_SNAPSHOT_MIN_def RID_SNAPSHOT_MAX_def RID_TEMP_MIN_def RID_TEMP_MAX_def

lemmas sizeof_defs = sizeof_wh16_t_def sizeof_kv32_t_def sizeof_bud_t_def

section \<open>Bytes of a 32-bit member\<close>

lemma u32_of_split:
  "u32_of (ucast w) (ucast (drop_bit 8 w)) (ucast (drop_bit 16 w)) (ucast (drop_bit 24 w)) = w"
  unfolding u32_of_def
proof (rule bit_word_eqI)
  fix i :: nat
  assume "i < LENGTH(32)"
  then consider "i < 8" | "8 \<le> i" "i < 16" | "16 \<le> i" "i < 24" | "24 \<le> i" "i < 32"
    by fastforce
  then show "bit (ucast (ucast w :: uint8_t)
                  OR push_bit 8 (ucast (ucast (drop_bit 8 w) :: uint8_t))
                  OR push_bit 16 (ucast (ucast (drop_bit 16 w) :: uint8_t))
                  OR push_bit 24 (ucast (ucast (drop_bit 24 w) :: uint8_t)) :: uint32_t) i
             = bit w i"
    by cases (auto simp: bit_simps)
qed

lemma length_u32_bytes: "length (u32_bytes e w) = 4"
  by (cases e) (simp_all add: u32_bytes_def)

lemma load_u32_bytes_at:
  "off = length pre \<Longrightarrow> load_u32 e (pre @ u32_bytes e w @ post) off = w"
  by (cases e) (simp_all add: load_u32_def u32_bytes_def nth_append u32_of_split)

section \<open>Sizes of the structures\<close>

lemma length_wh16_bytes: "length (wh16_bytes e h) = sizeof_wh16_t"
  by (simp add: wh16_bytes_def sizeof_wh16_t_def length_u32_bytes)

lemma length_kv32_bytes: "length (kv32_bytes e p) = sizeof_kv32_t"
  by (simp add: kv32_bytes_def sizeof_kv32_t_def length_u32_bytes)

lemma length_bud_bytes: "length (bud_bytes e b) = sizeof_bud_t"
  by (simp add: bud_bytes_def sizeof_bud_t_def length_u32_bytes)

lemma length_concat_kv32_bytes:
  "length (concat (map (kv32_bytes e) kvs)) = length kvs * sizeof_kv32_t"
  by (induction kvs) (simp_all add: length_kv32_bytes)

section \<open>Arithmetic of the size macros\<close>

lemma arith_in_representable: "representable_in t r \<Longrightarrow> arith_in t r = Inr (t, r)"
  by (cases t) simp_all

lemma convert_to_representable: "representable_in t x \<Longrightarrow> convert_to t x = x"
  by (cases t) simp_all

lemma arith_in_mult_convert: "arith_in t (a * convert_to t b) = arith_in t (a * b)"
  by (cases t) (simp_all add: mod_mult_right_eq)

lemma arith_in_add_convert: "arith_in t (convert_to t a + b) = arith_in t (a + b)"
  by (cases t) (simp_all add: mod_add_left_eq)

lemma BYTES_KV_representable:
  assumes "representable_in (usual_arith_conv size_bits t) x"
    and "representable_in (usual_arith_conv size_bits t) (x * 8)"
  shows "BYTES_KV size_bits (t, x) = Inr (usual_arith_conv size_bits t, x * 8)"
proof -
  let ?t = "usual_arith_conv size_bits t"
  have "BYTES_KV size_bits (t, x) = arith_in ?t (convert_to ?t x * convert_to ?t 8)"
    by (simp add: BYTES_KV_def Let_def sizeof_kv32_t_def)
  also have "\<dots> = arith_in ?t (convert_to ?t x * 8)"
    by (rule arith_in_mult_convert)
  also have "\<dots> = arith_in ?t (x * 8)"
    by (simp add: convert_to_representable assms(1))
  also have "\<dots> = Inr (?t, x * 8)"
    by (rule arith_in_representable) (rule assms(2))
  finally show ?thesis .
qed

lemma MSG_SIZE_representable:
  assumes "representable_in (usual_arith_conv size_bits t) p"
    and "representable_in (usual_arith_conv size_bits t) (16 + p)"
  shows "MSG_SIZE size_bits (t, p) = Inr (usual_arith_conv size_bits t, 16 + p)"
proof -
  let ?t = "usual_arith_conv size_bits t"
  have "MSG_SIZE size_bits (t, p) = arith_in ?t (convert_to ?t 16 + convert_to ?t p)"
    by (simp add: MSG_SIZE_def Let_def sizeof_wh16_t_def)
  also have "\<dots> = arith_in ?t (16 + convert_to ?t p)"
    by (rule arith_in_add_convert)
  also have "\<dots> = arith_in ?t (16 + p)"
    by (simp add: convert_to_representable assms(1))
  also have "\<dots> = Inr (?t, 16 + p)"
    by (rule arith_in_representable) (rule assms(2))
  finally show ?thesis .
qed

text \<open>
  With \<^verbatim>\<open>size_t\<close> at least 16 bits wide, as C requires, every type in which the macros
  compute holds the numbers from 0 to 40.
\<close>

lemma small_representable:
  assumes "16 \<le> size_bits" and "0 \<le> x" and "x \<le> 40"
  shows "representable_in (usual_arith_conv size_bits t) x"
proof -
  have p: "x < 2 ^ m" if "15 \<le> m" for m :: nat
  proof -
    have "(2::int) ^ 15 \<le> 2 ^ m"
      using that by (intro power_increasing) simp_all
    with assms(3) show ?thesis by simp
  qed
  show ?thesis
  proof (cases t)
    case (Signed_t w)
    show ?thesis
    proof (cases "w \<le> size_bits")
      case True
      have "x < 2 ^ size_bits"
        using assms(1) by (intro p) simp
      with Signed_t True assms(2) show ?thesis by simp
    next
      case False
      have "x < 2 ^ (w - 1)"
        using False assms(1) by (intro p) simp
      moreover have "- (2 ^ (w - 1)) \<le> (0::int)"
        by simp
      ultimately show ?thesis
        using Signed_t False assms(2) by simp
    qed
  next
    case (Unsigned_t w)
    have "x < 2 ^ max w size_bits"
      using assms(1) by (intro p) simp
    with Unsigned_t assms(2) show ?thesis by simp
  qed
qed

section \<open>Reading a structure back from its bytes\<close>

lemma read_wh16_bytes: "read_wh16 e (wh16_bytes e h @ rest) = Some h"
proof -
  let ?hd = "[mt h, kc h, ann h, ver h]"
  have c: "load_u32 e (wh16_bytes e h @ rest) 4 = cap h"
    unfolding wh16_bytes_def append_assoc
    by (rule load_u32_bytes_at) simp
  have r: "load_u32 e (wh16_bytes e h @ rest) 8 = rid h"
    using load_u32_bytes_at [of 8 "?hd @ u32_bytes e (cap h)" e "rid h" "u32_bytes e (n h) @ rest"]
    by (simp add: wh16_bytes_def length_u32_bytes)
  have l: "load_u32 e (wh16_bytes e h @ rest) 12 = n h"
    using load_u32_bytes_at [of 12 "?hd @ u32_bytes e (cap h) @ u32_bytes e (rid h)" e "n h" rest]
    by (simp add: wh16_bytes_def length_u32_bytes)
  have b: "(wh16_bytes e h @ rest) ! 0 = mt h" "(wh16_bytes e h @ rest) ! 1 = kc h"
    "(wh16_bytes e h @ rest) ! 2 = ann h" "(wh16_bytes e h @ rest) ! 3 = ver h"
    by (simp_all add: wh16_bytes_def)
  show ?thesis
    using b by (simp add: read_wh16_def length_wh16_bytes c r l)
qed

lemma read_kvs_bytes:
  assumes "length pre = sizeof_wh16_t + i * sizeof_kv32_t"
  shows "read_kvs e (pre @ kv32_bytes e p @ post) i = Some p"
proof -
  have a: "load_u32 e (pre @ kv32_bytes e p @ post) (sizeof_wh16_t + i * sizeof_kv32_t) = k p"
    unfolding kv32_bytes_def append_assoc
    by (rule load_u32_bytes_at) (simp add: assms)
  have b: "load_u32 e (pre @ kv32_bytes e p @ post) (sizeof_wh16_t + i * sizeof_kv32_t + 4) = v p"
    using load_u32_bytes_at [of "sizeof_wh16_t + i * sizeof_kv32_t + 4" "pre @ u32_bytes e (k p)"
        e "v p" post]
    by (simp add: kv32_bytes_def length_u32_bytes assms)
  show ?thesis
    by (simp add: read_kvs_def Let_def a b assms length_kv32_bytes)
qed

lemma assemble_message_concat:
  assumes "length msg = sizeof_wh16_t + unat (n h)"
    and "unat (n h) = length kvs * sizeof_kv32_t"
  shows "assemble_message e msg h kvs = Some (wh16_bytes e h @ concat (map (kv32_bytes e) kvs))"
proof -
  have 1: "memcpy msg 0 (wh16_bytes e h) sizeof_wh16_t
           = Some (wh16_bytes e h @ drop sizeof_wh16_t msg)"
    using assms by (simp add: memcpy_def length_wh16_bytes)
  have 2: "memcpy (wh16_bytes e h @ drop sizeof_wh16_t msg) sizeof_wh16_t
             (concat (map (kv32_bytes e) kvs)) (unat (n h))
           = Some (wh16_bytes e h @ concat (map (kv32_bytes e) kvs))"
    using assms by (simp add: memcpy_def length_wh16_bytes length_concat_kv32_bytes)
  show ?thesis by (simp add: assemble_message_def 1 2)
qed

text \<open>The bytes of the header and first pair of \<^verbatim>\<open>test_full_message\<close> on a little-endian target.\<close>

lemma full_message_bytes_little_endian:
  "wh16_bytes LittleEndian (WH M_UPSERT K_MCP ANN_MCP CAP_STANDARD RID_USER_MIN 24)
     @ kv32_bytes LittleEndian (KV 0x1001 0x2002)
   = [0x02, 0x10, 0x07, 0x01, 0, 0, 0, 0x30, 0, 0, 0x10, 0, 24, 0, 0, 0,
      0x01, 0x10, 0, 0, 0x02, 0x20, 0, 0]"
  by (simp add: wh16_bytes_def kv32_bytes_def u32_bytes_def WH_def KV_def M_UPSERT_def K_MCP_def
      ANN_MCP_def CAP_STANDARD_def RID_USER_MIN_def T_R_def T_W_def T_D_def P_TOOLS_def P_APPS_def
      drop_bit_eq_div)

text \<open>Without the caller's precondition the subtraction wraps.\<close>

lemma remaining_wraps: "remaining (BUD 1 0 1) = 0xFFFFFFFF"
  by (simp add: remaining_def BUD_def)

section \<open>Header construction\<close>

text \<open>
  Claim C1. For every argument tuple, the header built by \<open>WH\<close> has version 1 and
  its object representation is exactly 16 bytes long; \<open>WH\<close> is a total function into
  the structure, so there is no input on which construction fails. When the first
  three arguments are in the 8-bit range and the last three in the 32-bit range, each
  field read back from the header is the argument it was built from.
\<close>

theorem WH_fields_roundtrip:
  "ver (WH a_mt a_kc a_ann a_cap a_rid a_n) = 1
   \<and> length (wh16_bytes e (WH a_mt a_kc a_ann a_cap a_rid a_n)) = 16
   \<and> (0 \<le> a_mt \<and> a_mt < 2 ^ 8 \<and> 0 \<le> a_kc \<and> a_kc < 2 ^ 8 \<and> 0 \<le> a_ann \<and> a_ann < 2 ^ 8
      \<and> 0 \<le> a_cap \<and> a_cap < 2 ^ 32 \<and> 0 \<le> a_rid \<and> a_rid < 2 ^ 32 \<and> 0 \<le> a_n \<and> a_n < 2 ^ 32
      \<longrightarrow> uint (mt (WH a_mt a_kc a_ann a_cap a_rid a_n)) = a_mt
        \<and> uint (kc (WH a_mt a_kc a_ann a_cap a_rid a_n)) = a_kc
        \<and> uint (ann (WH a_mt a_kc a_ann a_cap a_rid a_n)) = a_ann
        \<and> uint (cap (WH a_mt a_kc a_ann a_cap a_rid a_n)) = a_cap
        \<and> uint (rid (WH a_mt a_kc a_ann a_cap a_rid a_n)) = a_rid
        \<and> uint (n (WH a_mt a_kc a_ann a_cap a_rid a_n)) = a_n)"
proof -
  have "ver (WH a_mt a_kc a_ann a_cap a_rid a_n) = 1"
    by (simp add: WH_def)
  moreover have "length (wh16_bytes e (WH a_mt a_kc a_ann a_cap a_rid a_n)) = 16"
    by (simp add: length_wh16_bytes sizeof_wh16_t_def)
  moreover have "uint (mt (WH a_mt a_kc a_ann a_cap a_rid a_n)) = a_mt"
    if "0 \<le> a_mt" "a_mt < 2 ^ 8"
    using that by (simp add: WH_def uint_word_of_int)
  moreover have "uint (kc (WH a_mt a_kc a_ann a_cap a_rid a_n)) = a_kc"
    if "0 \<le> a_kc" "a_kc < 2 ^ 8"
    using that by (simp add: WH_def uint_word_of_int)
  moreover have "uint (ann (WH a_mt a_kc a_ann a_cap a_rid a_n)) = a_ann"
    if "0 \<le> a_ann" "a_ann < 2 ^ 8"
    using that by (simp add: WH_def uint_word_of_int)
  moreover have "uint (cap (WH a_mt a_kc a_ann a_cap a_rid a_n)) = a_cap"
    if "0 \<le> a_cap" "a_cap < 2 ^ 32"
    using that by (simp add: WH_def uint_word_of_int)
  moreover have "uint (rid (WH a_mt a_kc a_ann a_cap a_rid a_n)) = a_rid"
    if "0 \<le> a_rid" "a_rid < 2 ^ 32"
    using that by (simp add: WH_def uint_word_of_int)
  moreover have "uint (n (WH a_mt a_kc a_ann a_cap a_rid a_n)) = a_n"
    if "0 \<le> a_n" "a_n < 2 ^ 32"
    using that by (simp add: WH_def uint_word_of_int)
  ultimately show ?thesis by blast
qed

text \<open>
  The header of \<^verbatim>\<open>test_wh16\<close>, \<open>WH(M_UPSERT, K_MCP, ANN_MCP, P_TOOLS | P_APPS, 1, 100)\<close>:
  its arguments are in range and its fields read back as given.
\<close>

theorem WH_fields_roundtrip_witness:
  "(0 \<le> M_UPSERT \<and> M_UPSERT < 2 ^ 8 \<and> 0 \<le> K_MCP \<and> K_MCP < 2 ^ 8 \<and> 0 \<le> ANN_MCP \<and> ANN_MCP < 2 ^ 8
    \<and> 0 \<le> (P_TOOLS OR P_APPS) \<and> (P_TOOLS OR P_APPS) < 2 ^ 32
    \<and> (0::int) \<le> 1 \<and> (1::int) < 2 ^ 32 \<and> (0::int) \<le> 100 \<and> (100::int) < 2 ^ 32)
   \<and> ver (WH M_UPSERT K_MCP ANN_MCP (P_TOOLS OR P_APPS) 1 100) = 1
   \<and> length (wh16_bytes LittleEndian (WH M_UPSERT K_MCP ANN_MCP (P_TOOLS OR P_APPS) 1 100)) = 16
   \<and> uint (mt (WH M_UPSERT K_MCP ANN_MCP (P_TOOLS OR P_APPS) 1 100)) = M_UPSERT
   \<and> uint (kc (WH M_UPSERT K_MCP ANN_MCP (P_TOOLS OR P_APPS) 1 100)) = K_MCP
   \<and> uint (ann (WH M_UPSERT K_MCP ANN_MCP (P_TOOLS OR P_APPS) 1 100)) = ANN_MCP
   \<and> uint (cap (WH M_UPSERT K_MCP ANN_MCP (P_TOOLS OR P_APPS) 1 100)) = (P_TOOLS OR P_APPS)
   \<and> uint (rid (WH M_UPSERT K_MCP ANN_MCP (P_TOOLS OR P_APPS) 1 100)) = 1
   \<and> uint (n (WH M_UPSERT K_MCP ANN_MCP (P_TOOLS OR P_APPS) 1 100)) = 100"
proof -
  have rng: "0 \<le> M_UPSERT \<and> M_UPSERT < 2 ^ 8 \<and> 0 \<le> K_MCP \<and> K_MCP < 2 ^ 8
      \<and> 0 \<le> ANN_MCP \<and> ANN_MCP < 2 ^ 8
      \<and> 0 \<le> (P_TOOLS OR P_APPS) \<and> (P_TOOLS OR P_APPS) < 2 ^ 32
      \<and> (0::int) \<le> 1 \<and> (1::int) < 2 ^ 32 \<and> (0::int) \<le> 100 \<and> (100::int) < 2 ^ 32"
    by (simp add: M_UPSERT_def K_MCP_def ANN_MCP_def T_R_def T_W_def T_D_def P_TOOLS_def
        P_APPS_def)
  show ?thesis
    using rng
      WH_fields_roundtrip [of M_UPSERT K_MCP ANN_MCP "P_TOOLS OR P_APPS" 1 100 LittleEndian]
    by blast
qed

text \<open>
  Claim C9. The \<open>mt\<close>, \<open>kc\<close> and \<open>ann\<close> members are 8 bits wide, and \<open>WH\<close> stores in
  each the argument reduced modulo \<open>2 ^ 8\<close>, whatever the argument: an argument of 256
  or more loses its high bits and nothing is rejected. The argument \<open>0x102\<close> is stored as
  \<open>M_UPSERT\<close>, and 256 as 0.
\<close>

theorem WH_truncates_to_8_bits:
  "uint (mt (WH a_mt a_kc a_ann a_cap a_rid a_n)) = a_mt mod 2 ^ 8
   \<and> uint (kc (WH a_mt a_kc a_ann a_cap a_rid a_n)) = a_kc mod 2 ^ 8
   \<and> uint (ann (WH a_mt a_kc a_ann a_cap a_rid a_n)) = a_ann mod 2 ^ 8
   \<and> uint (mt (WH 0x102 256 511 0 0 0)) = M_UPSERT
   \<and> uint (kc (WH 0x102 256 511 0 0 0)) = 0
   \<and> uint (ann (WH 0x102 256 511 0 0 0)) = 255"
  by (simp add: WH_def uint_word_of_int M_UPSERT_def)

section \<open>Record id ranges\<close>

text \<open>
  Claim C2. For every record id (every integer, so every 32-bit value),
  \<open>RID_IS_VALID\<close> holds exactly when the id lies in one of the four ranges SYSTEM,
  USER, SNAPSHOT and TEMP, and exactly when it lies between \<open>RID_SYSTEM_MIN\<close> and
  \<open>RID_TEMP_MAX\<close>. The two agree because the ranges are non-empty, in increasing
  order, and each begins right after the one before. \<open>RID_IS_VALID(0x30000000)\<close>, the
  id after \<open>RID_TEMP_MAX\<close>, is false.
\<close>

theorem RID_IS_VALID_iff_ranges:
  "(RID_IS_VALID r \<longleftrightarrow>
      (RID_SYSTEM_MIN \<le> r \<and> r \<le> RID_SYSTEM_MAX) \<or> (RID_USER_MIN \<le> r \<and> r \<le> RID_USER_MAX)
      \<or> (RID_SNAPSHOT_MIN \<le> r \<and> r \<le> RID_SNAPSHOT_MAX) \<or> (RID_TEMP_MIN \<le> r \<and> r \<le> RID_TEMP_MAX))
   \<and> (RID_IS_VALID r \<longleftrightarrow>
      RID_IS_SYSTEM r \<or> RID_IS_USER r
      \<or> (RID_SNAPSHOT_MIN \<le> r \<and> r \<le> RID_SNAPSHOT_MAX) \<or> (RID_TEMP_MIN \<le> r \<and> r \<le> RID_TEMP_MAX))
   \<and> (RID_IS_VALID r \<longleftrightarrow> RID_SYSTEM_MIN \<le> r \<and> r \<le> RID_TEMP_MAX)
   \<and> RID_SYSTEM_MIN \<le> RID_SYSTEM_MAX \<and> RID_SYSTEM_MAX + 1 = RID_USER_MIN
   \<and> RID_USER_MIN \<le> RID_USER_MAX \<and> RID_USER_MAX + 1 = RID_SNAPSHOT_MIN
   \<and> RID_SNAPSHOT_MIN \<le> RID_SNAPSHOT_MAX \<and> RID_SNAPSHOT_MAX + 1 = RID_TEMP_MIN
   \<and> RID_TEMP_MIN \<le> RID_TEMP_MAX
   \<and> RID_TEMP_MAX + 1 = 0x30000000 \<and> \<not> RID_IS_VALID 0x30000000"
  unfolding RID_IS_VALID_def RID_IS_SYSTEM_def RID_IS_USER_def rid_defs by auto

text \<open>
  Claim C7. No record id lies in two of the four ranges SYSTEM, USER, SNAPSHOT and
  TEMP; in particular none satisfies both \<open>RID_IS_SYSTEM\<close> and \<open>RID_IS_USER\<close>.
  \<open>RID_SYSTEM_MIN\<close> is a system id and not a user id, \<open>RID_USER_MIN\<close> is a user id and
  not a system id.
\<close>

theorem rid_ranges_pairwise_disjoint:
  "\<not> (RID_IS_SYSTEM r \<and> RID_IS_USER r)
   \<and> \<not> (RID_IS_SYSTEM r \<and> RID_SNAPSHOT_MIN \<le> r \<and> r \<le> RID_SNAPSHOT_MAX)
   \<and> \<not> (RID_IS_SYSTEM r \<and> RID_TEMP_MIN \<le> r \<and> r \<le> RID_TEMP_MAX)
   \<and> \<not> (RID_IS_USER r \<and> RID_SNAPSHOT_MIN \<le> r \<and> r \<le> RID_SNAPSHOT_MAX)
   \<and> \<not> (RID_IS_USER r \<and> RID_TEMP_MIN \<le> r \<and> r \<le> RID_TEMP_MAX)
   \<and> \<not> (RID_SNAPSHOT_MIN \<le> r \<and> r \<le> RID_SNAPSHOT_MAX \<and> RID_TEMP_MIN \<le> r \<and> r \<le> RID_TEMP_MAX)
   \<and> RID_IS_SYSTEM RID_SYSTEM_MIN \<and> \<not> RID_IS_USER RID_SYSTEM_MIN
   \<and> RID_IS_USER RID_USER_MIN \<and> \<not> RID_IS_SYSTEM RID_USER_MIN"
  unfolding RID_IS_SYSTEM_def RID_IS_USER_def rid_defs by auto

section \<open>Annotation bits\<close>

text \<open>
  Claim C5. \<open>T_R\<close> has the read bit and not the write bit; \<open>ANN_RW\<close> has read and
  write and not delete; \<open>ANN_FULL\<close> has read, write and delete, and its execute bit
  is set: \<open>ANN_FULL & T_X == T_X\<close>.
\<close>

theorem annotation_predicates:
  "HAS_READ T_R \<and> \<not> HAS_WRITE T_R
   \<and> HAS_READ ANN_RW \<and> HAS_WRITE ANN_RW \<and> \<not> HAS_DELETE ANN_RW
   \<and> HAS_READ ANN_FULL \<and> HAS_WRITE ANN_FULL \<and> HAS_DELETE ANN_FULL
   \<and> ANN_FULL AND T_X = T_X"
  by (simp add: HAS_READ_def HAS_WRITE_def HAS_DELETE_def ann_defs)

text \<open>
  Claim C10. \<open>ANN_FULL\<close> is exactly \<open>T_R | T_W | T_D | T_X\<close>, the value \<open>0x0F\<close>, and
  shares no bit with any of the four feature flags \<open>T_SYNC\<close>, \<open>T_COMPRESS\<close>,
  \<open>T_ENCRYPT\<close> and \<open>T_ARCHIVE\<close>.
\<close>

theorem ANN_FULL_has_no_feature_flag:
  "ANN_FULL = T_R OR T_W OR T_D OR T_X \<and> ANN_FULL = 0x0F
   \<and> ANN_FULL AND T_SYNC = 0 \<and> ANN_FULL AND T_COMPRESS = 0
   \<and> ANN_FULL AND T_ENCRYPT = 0 \<and> ANN_FULL AND T_ARCHIVE = 0"
  by (simp add: ann_defs)

section \<open>Capability flags\<close>

text \<open>
  Claim C3, as stated, asks that \<open>CAP_FULL\<close> contain no bit outside the eight
  capability flags. It fails: \<open>CAP_FULL\<close> is the constant \<open>0xFFFFFFFF\<close>, and masking it
  with the union of the eight flags does not give \<open>CAP_FULL\<close> back.
\<close>

theorem CAP_FULL_outside_flags_counterexample:
  "CAP_FULL AND (P_TOOLS OR P_APPS OR P_FILES OR P_NETWORK
                 OR P_DATABASE OR P_COMPUTE OR P_MEMORY OR P_ADMIN) \<noteq> CAP_FULL"
  by (simp add: cap_defs)

text \<open>
  Claim C3, amended. Each of the eight capability flags is a single bit, one for each
  of the bit positions 24 to 31, so the flags are distinct and lie within
  \<open>0x01000000\<close> to \<open>0x80000000\<close>. \<open>CAP_STANDARD\<close> is \<open>P_TOOLS | P_APPS\<close> and
  \<open>CAP_EXTENDED\<close> is \<open>P_TOOLS | P_APPS | P_FILES\<close>, and neither has a bit outside the
  eight flags. \<open>CAP_FULL\<close> is \<open>0xFFFFFFFF\<close>: it contains all eight flags together with
  the 24 low bits \<open>0x00FFFFFF\<close>, which are not capability flags.
\<close>

theorem capability_flags:
  "P_DATABASE = 2 ^ 24 \<and> P_COMPUTE = 2 ^ 25 \<and> P_MEMORY = 2 ^ 26 \<and> P_ADMIN = 2 ^ 27
   \<and> P_TOOLS = 2 ^ 28 \<and> P_APPS = 2 ^ 29 \<and> P_FILES = 2 ^ 30 \<and> P_NETWORK = 2 ^ 31
   \<and> distinct [P_TOOLS, P_APPS, P_FILES, P_NETWORK, P_DATABASE, P_COMPUTE, P_MEMORY, P_ADMIN]
   \<and> (P_TOOLS OR P_APPS OR P_FILES OR P_NETWORK
       OR P_DATABASE OR P_COMPUTE OR P_MEMORY OR P_ADMIN) = 0xFF000000
   \<and> CAP_STANDARD = P_TOOLS OR P_APPS
   \<and> CAP_STANDARD AND 0xFF000000 = CAP_STANDARD
   \<and> CAP_EXTENDED = P_TOOLS OR P_APPS OR P_FILES
   \<and> CAP_EXTENDED AND 0xFF000000 = CAP_EXTENDED
   \<and> CAP_FULL = 0xFFFFFFFF
   \<and> CAP_FULL AND 0xFF000000 = 0xFF000000
   \<and> CAP_FULL = (P_TOOLS OR P_APPS OR P_FILES OR P_NETWORK
                 OR P_DATABASE OR P_COMPUTE OR P_MEMORY OR P_ADMIN) OR 0x00FFFFFF"
  by (simp add: cap_defs)

section \<open>Size computation\<close>

text \<open>
  Claim C6, as stated, asks that \<open>BYTES_KV(n)\<close> be \<open>n * 8\<close> for every \<open>n\<close> and
  \<open>MSG_SIZE(p)\<close> be \<open>16 + p\<close> for every \<open>p\<close>. It fails where the product or the sum
  does not fit the type of the computation: with \<^verbatim>\<open>size_t\<close> 64 bits wide and an
  unsigned 64-bit argument, \<open>BYTES_KV(2 ^ 61)\<close> is 0 and not \<open>2 ^ 64\<close>, and
  \<open>MSG_SIZE(2 ^ 64 - 16)\<close> is 0 and not \<open>2 ^ 64\<close>.
\<close>

theorem size_macros_wrap_counterexample:
  "BYTES_KV 64 (Unsigned_t 64, 2 ^ 61) = Inr (Unsigned_t 64, 0)
   \<and> (0::int) \<noteq> 2 ^ 61 * 8
   \<and> representable_in (Unsigned_t 64) (2 ^ 61)
   \<and> MSG_SIZE 64 (Unsigned_t 64, 2 ^ 64 - 16) = Inr (Unsigned_t 64, 0)
   \<and> (0::int) \<noteq> 16 + (2 ^ 64 - 16)
   \<and> representable_in (Unsigned_t 64) (2 ^ 64 - 16)"
  by (simp add: BYTES_KV_def MSG_SIZE_def sizeof_defs)

text \<open>
  Claim C6, amended. The packed pair is 8 bytes and the packed header 16 bytes, both
  as \<open>sizeof\<close> and as the length of the object representation. Each macro computes in
  the type that the usual arithmetic conversions give for its argument and \<^verbatim>\<open>size_t\<close>.
  For every \<open>x\<close> such that \<open>x\<close> and \<open>x * 8\<close> are representable in that type,
  \<open>BYTES_KV(x)\<close> is \<open>x * 8\<close> exactly, and for every \<open>p\<close> such that \<open>p\<close> and \<open>16 + p\<close>
  are representable in that type, \<open>MSG_SIZE(p)\<close> is \<open>16 + p\<close> exactly. With \<^verbatim>\<open>size_t\<close>
  at least 16 bits wide, \<open>BYTES_KV(3)\<close> is 24 and \<open>MSG_SIZE(24)\<close> is 40, whatever the
  integer type of the argument.
\<close>

theorem size_macros_exact_if_representable:
  "sizeof_kv32_t = 8 \<and> sizeof_wh16_t = 16
   \<and> length (kv32_bytes e p0) = 8 \<and> length (wh16_bytes e h) = 16
   \<and> (representable_in (usual_arith_conv size_bits tx) x
      \<and> representable_in (usual_arith_conv size_bits tx) (x * 8)
      \<longrightarrow> BYTES_KV size_bits (tx, x) = Inr (usual_arith_conv size_bits tx, x * 8))
   \<and> (representable_in (usual_arith_conv size_bits tp) p
      \<and> representable_in (usual_arith_conv size_bits tp) (16 + p)
      \<longrightarrow> MSG_SIZE size_bits (tp, p) = Inr (usual_arith_conv size_bits tp, 16 + p))
   \<and> (16 \<le> size_bits
      \<longrightarrow> BYTES_KV size_bits (tx, 3) = Inr (usual_arith_conv size_bits tx, 24)
        \<and> MSG_SIZE size_bits (tp, 24) = Inr (usual_arith_conv size_bits tp, 40))"
proof -
  have "sizeof_kv32_t = 8" "sizeof_wh16_t = 16"
    by (simp_all add: sizeof_defs)
  moreover have "length (kv32_bytes e p0) = 8" "length (wh16_bytes e h) = 16"
    by (simp_all add: length_kv32_bytes length_wh16_bytes sizeof_defs)
  moreover have "BYTES_KV size_bits (tx, 3) = Inr (usual_arith_conv size_bits tx, 24)"
    if "16 \<le> size_bits"
    using BYTES_KV_representable [of size_bits tx 3]
      small_representable [OF that, of 3 tx] small_representable [OF that, of 24 tx]
    by simp
  moreover have "MSG_SIZE size_bits (tp, 24) = Inr (usual_arith_conv size_bits tp, 40)"
    if "16 \<le> size_bits"
    using MSG_SIZE_representable [of size_bits tp 24]
      small_representable [OF that, of 24 tp] small_representable [OF that, of 40 tp]
    by simp
  ultimately show ?thesis
    using BYTES_KV_representable [of size_bits tx x] MSG_SIZE_representable [of size_bits tp p]
    by blast
qed

text \<open>
  \<^verbatim>\<open>test_kv32\<close> and \<^verbatim>\<open>test_full_message\<close> on a target with 64-bit \<^verbatim>\<open>size_t\<close>: the
  argument of \<open>BYTES_KV(3)\<close> is the \<^verbatim>\<open>int\<close> literal 3, that of \<open>MSG_SIZE(payload_size)\<close>
  the \<^verbatim>\<open>uint32_t\<close> value 24. Both computations are done in the unsigned 64-bit type.
\<close>

theorem size_macros_exact_if_representable_witness:
  "(representable_in (usual_arith_conv 64 (Signed_t 32)) 3
      \<and> representable_in (usual_arith_conv 64 (Signed_t 32)) (3 * 8))
   \<and> BYTES_KV 64 (Signed_t 32, 3) = Inr (Unsigned_t 64, 24)
   \<and> (representable_in (usual_arith_conv 64 (Unsigned_t 32)) 24
      \<and> representable_in (usual_arith_conv 64 (Unsigned_t 32)) (16 + 24))
   \<and> MSG_SIZE 64 (Unsigned_t 32, 24) = Inr (Unsigned_t 64, 40)
   \<and> (16::nat) \<le> 64"
  using size_macros_exact_if_representable
    [of LittleEndian "KV 0 0" "WH 0 0 0 0 0 0" 64 "Signed_t 32" 3 "Unsigned_t 32" 24]
  by simp

section \<open>Budget\<close>

text \<open>
  Claim C8. For every budget built by \<open>BUD\<close> whose \<open>used_credits\<close> is at most its
  \<open>cap_credits\<close>, the 32-bit subtraction \<open>cap_credits - used_credits\<close> is the exact
  difference of the two fields, with no wrap-around. When the arguments satisfy
  \<open>0 \<le> used \<le> cap < 2 ^ 32\<close> the precondition holds and the result is \<open>cap - used\<close>.
  \<open>BUD(1, 1000000, 50000)\<close> has 950000 credits remaining.
\<close>

theorem remaining_exact:
  "(used_credits (BUD a_mode a_cap a_used) \<le> cap_credits (BUD a_mode a_cap a_used)
      \<longrightarrow> uint (remaining (BUD a_mode a_cap a_used))
          = uint (cap_credits (BUD a_mode a_cap a_used))
            - uint (used_credits (BUD a_mode a_cap a_used)))
   \<and> (0 \<le> a_used \<and> a_used \<le> a_cap \<and> a_cap < 2 ^ 32
      \<longrightarrow> used_credits (BUD a_mode a_cap a_used) \<le> cap_credits (BUD a_mode a_cap a_used)
        \<and> uint (remaining (BUD a_mode a_cap a_used)) = a_cap - a_used)
   \<and> remaining (BUD 1 1000000 50000) = 950000"
proof -
  have fields: "uint (remaining (BUD a_mode a_cap a_used))
        = uint (cap_credits (BUD a_mode a_cap a_used)) - uint (used_credits (BUD a_mode a_cap a_used))"
    if "used_credits (BUD a_mode a_cap a_used) \<le> cap_credits (BUD a_mode a_cap a_used)"
    using that by (simp add: remaining_def uint_minus_simple_alt)
  have args: "used_credits (BUD a_mode a_cap a_used) \<le> cap_credits (BUD a_mode a_cap a_used)
        \<and> uint (remaining (BUD a_mode a_cap a_used)) = a_cap - a_used"
    if "0 \<le> a_used" "a_used \<le> a_cap" "a_cap < 2 ^ 32"
  proof -
    have u: "uint (word_of_int a_used :: uint32_t) = a_used"
      and c: "uint (word_of_int a_cap :: uint32_t) = a_cap"
      using that by (simp_all add: uint_word_of_int)
    have le: "(word_of_int a_used :: uint32_t) \<le> word_of_int a_cap"
      using that by (simp add: word_le_def u c)
    show ?thesis
      using le by (simp add: remaining_def BUD_def uint_minus_simple_alt u c)
  qed
  have test: "remaining (BUD 1 1000000 50000) = 950000"
    by (simp add: remaining_def BUD_def)
  show ?thesis
    using fields args test by blast
qed

text \<open>The budget of \<^verbatim>\<open>test_bud\<close> satisfies the precondition and has 950000 credits left.\<close>

theorem remaining_exact_witness:
  "used_credits (BUD 1 1000000 50000) \<le> cap_credits (BUD 1 1000000 50000)
   \<and> ((0::int) \<le> 50000 \<and> (50000::int) \<le> 1000000 \<and> (1000000::int) < 2 ^ 32)
   \<and> uint (remaining (BUD 1 1000000 50000)) = 1000000 - 50000
   \<and> uint (remaining (BUD 1 1000000 50000))
     = uint (cap_credits (BUD 1 1000000 50000)) - uint (used_credits (BUD 1 1000000 50000))"
  using remaining_exact [of 1 1000000 50000]
  by (simp add: BUD_def)

section \<open>Message assembly\<close>

text \<open>
  Claim C4. Let the header be \<open>WH(M_UPSERT, K_MCP, ANN_MCP, CAP_STANDARD, RID_USER_MIN, 24)\<close>
  and let \<open>p0\<close>, \<open>p1\<close>, \<open>p2\<close> be any three key-value pairs. Assembling the message in a
  40-byte buffer succeeds and gives the 16 bytes of the header followed by the 24
  bytes of the pairs. Reading that buffer back gives a header whose \<open>mt\<close> is
  \<open>M_UPSERT\<close> and whose \<open>n\<close> is 24, and the \<open>n / 8\<close> pairs of the payload are \<open>p0\<close>,
  \<open>p1\<close>, \<open>p2\<close> in this order. This holds in either byte order.
\<close>

theorem full_message_roundtrip:
  assumes "length msg0 = 40"
  shows "\<exists>msg h.
     assemble_message e msg0 (WH M_UPSERT K_MCP ANN_MCP CAP_STANDARD RID_USER_MIN 24) [p0, p1, p2]
       = Some msg
     \<and> msg = wh16_bytes e (WH M_UPSERT K_MCP ANN_MCP CAP_STANDARD RID_USER_MIN 24)
             @ kv32_bytes e p0 @ kv32_bytes e p1 @ kv32_bytes e p2
     \<and> length msg = 40
     \<and> read_wh16 e msg = Some h \<and> uint (mt h) = M_UPSERT \<and> uint (n h) = 24
     \<and> read_kvs e msg 0 = Some p0 \<and> read_kvs e msg 1 = Some p1 \<and> read_kvs e msg 2 = Some p2
     \<and> map (read_kvs e msg) [0 ..< unat (n h) div sizeof_kv32_t] = [Some p0, Some p1, Some p2]"
proof -
  let ?h = "WH M_UPSERT K_MCP ANN_MCP CAP_STANDARD RID_USER_MIN 24"
  let ?msg = "wh16_bytes e ?h @ kv32_bytes e p0 @ kv32_bytes e p1 @ kv32_bytes e p2"
  have n24: "n ?h = 24"
    by (simp add: WH_def)
  have asm: "assemble_message e msg0 ?h [p0, p1, p2] = Some ?msg"
    using assemble_message_concat [of msg0 ?h "[p0, p1, p2]" e] assms
    by (simp add: n24 sizeof_defs)
  have len: "length ?msg = 40"
    by (simp add: length_wh16_bytes length_kv32_bytes sizeof_defs)
  have rd: "read_wh16 e ?msg = Some ?h"
    by (rule read_wh16_bytes)
  have k0: "read_kvs e ?msg 0 = Some p0"
    using read_kvs_bytes [of "wh16_bytes e ?h" 0 e p0 "kv32_bytes e p1 @ kv32_bytes e p2"]
    by (simp add: length_wh16_bytes)
  have k1: "read_kvs e ?msg 1 = Some p1"
    using read_kvs_bytes [of "wh16_bytes e ?h @ kv32_bytes e p0" 1 e p1 "kv32_bytes e p2"]
    by (simp add: length_wh16_bytes length_kv32_bytes)
  have k2: "read_kvs e ?msg 2 = Some p2"
    using read_kvs_bytes [of "wh16_bytes e ?h @ kv32_bytes e p0 @ kv32_bytes e p1" 2 e p2 "[]"]
    by (simp add: length_wh16_bytes length_kv32_bytes)
  have up: "[0 ..< unat (n ?h) div sizeof_kv32_t] = [0, 1, 2]"
    by (simp add: n24 sizeof_kv32_t_def upt_rec)
  have m: "uint (mt ?h) = M_UPSERT"
    by (simp add: WH_def M_UPSERT_def)
  show ?thesis
    using asm len rd k0 k1 k2 up m n24 by simp
qed

text \<open>
  The message of \<^verbatim>\<open>test_full_message\<close>, with the pairs \<open>KV(0x1001, 0x2002)\<close>,
  \<open>KV(0x3003, 0x4004)\<close> and \<open>KV(0x5005, 0x6006)\<close>, assembled little-endian in a zeroed
  buffer of 40 bytes.
\<close>

theorem full_message_roundtrip_witness:
  "length (replicate 40 (0 :: uint8_t)) = 40
   \<and> (\<exists>msg h.
     assemble_message LittleEndian (replicate 40 0)
        (WH M_UPSERT K_MCP ANN_MCP CAP_STANDARD RID_USER_MIN 24)
        [KV 0x1001 0x2002, KV 0x3003 0x4004, KV 0x5005 0x6006]
       = Some msg
     \<and> length msg = 40
     \<and> read_wh16 LittleEndian msg = Some h \<and> uint (mt h) = M_UPSERT \<and> uint (n h) = 24
     \<and> read_kvs LittleEndian msg 0 = Some (KV 0x1001 0x2002)
     \<and> read_kvs LittleEndian msg 1 = Some (KV 0x3003 0x4004)
     \<and> read_kvs LittleEndian msg 2 = Some (KV 0x5005 0x6006))"
proof -
  have len: "length (replicate 40 (0 :: uint8_t)) = 40"
    by simp
  show ?thesis
    using len full_message_roundtrip [OF len, of LittleEndian "KV 0x1001 0x2002"
        "KV 0x3003 0x4004" "KV 0x5005 0x6006"]
    by blast
qed

end
